theory Spec2Isabelle
  imports Complex_Main
begin

section \<open>Data model of the cart (src/app.js)\<close>

text \<open>
  A cart item as \<open>addItemToCart\<close> stores it: the fields of the input object
  (\<open>{...newItem}\<close>) and the generated \<open>id\<close>. The field \<open>id\<close> is called \<open>item_id\<close> here,
  because \<open>id\<close> is the identity function of HOL.

  JavaScript numbers that hold counts (\<open>tickets.adults\<close>, \<open>tickets.kids\<close>, \<open>days\<close>, the
  quantity of an update) are integers: \<open>int\<close>, negative values included, since the code
  validates none of them (a double holds every integer up to \<open>2 ^ 53\<close> exactly, and
  the addition of two counts rounds like every operation on doubles: see \<open>js_add_int\<close>).
  A price is the rational its number denotes (in a cart of the program, a double); the
  rounding of the arithmetic is the subject of the section on numbers.
\<close>

record tickets =
  adults :: int
  kids :: int

record unit_price =
  adult :: rat
  child :: rat

record cart_item_input =
  parkId :: string
  days :: int
  tickets :: tickets
  unitPrice :: unit_price
  parkName :: string
  parkImage :: string

record cart_item = cart_item_input +
  item_id :: string

record cart =
  items :: "cart_item list"

datatype ticket_type = Adults | Kids

section \<open>Local storage and JSON\<close>

text \<open>
  The value stored under \<open>CART_KEY\<close> is a string. \<open>Stringified c\<close> is the string
  \<open>JSON.stringify(c)\<close> of a cart \<open>c\<close>, which \<open>JSON.parse\<close> turns back into \<open>c\<close>;
  \<open>Malformed s\<close> is a string \<open>s\<close> that is not JSON text, the empty string included, on which
  \<open>JSON.parse\<close> throws a \<open>SyntaxError\<close>. The storage itself is the result of
  \<open>localStorage.getItem(CART_KEY)\<close>: \<open>None\<close> for \<open>null\<close> (no entry), or the stored string.
  A string that is the JSON text of something other than a cart is not modelled:
  \<open>saveCart\<close>, the only writer of the key, never stores one.
\<close>

datatype stored_string = Stringified cart | Malformed string

type_synonym storage = "stored_string option"

datatype error = SyntaxError

fun JSON_parse :: "stored_string \<Rightarrow> error + cart" where
  "JSON_parse (Stringified c) = Inr c"
| "JSON_parse (Malformed s) = Inl SyntaxError"

definition JSON_stringify :: "cart \<Rightarrow> stored_string" where
  "JSON_stringify c = Stringified c"

text \<open>JavaScript truthiness of a string: every string but the empty one.\<close>

fun truthy :: "stored_string \<Rightarrow> bool" where
  "truthy (Stringified c) = True"
| "truthy (Malformed s) = (s \<noteq> [])"

text \<open>
  \<^verbatim>\<open>const cart = localStorage.getItem(CART_KEY);
  return cart ? JSON.parse(cart) : { items: [] };\<close>
  There is no \<open>try\<close> in the file: an exception of \<open>JSON.parse\<close> reaches the caller.
\<close>

definition getCart :: "storage \<Rightarrow> error + cart" where
  "getCart st =
     (case st of
        None \<Rightarrow> Inr \<lparr>items = []\<rparr>
      | Some cart \<Rightarrow> if truthy cart then JSON_parse cart else Inr \<lparr>items = []\<rparr>)"

text \<open>\<^verbatim>\<open>localStorage.setItem(CART_KEY, JSON.stringify(cart))\<close>: the storage afterwards.\<close>

definition saveCart :: "cart \<Rightarrow> storage" where
  "saveCart cart = Some (JSON_stringify cart)"

text \<open>\<^verbatim>\<open>localStorage.removeItem(CART_KEY)\<close>: the storage afterwards.\<close>

definition clearCart :: storage where
  "clearCart = None"

section \<open>Array helpers of JavaScript\<close>

text \<open>
  \<open>Array.prototype.findIndex\<close>: the index of the first element that satisfies the
  predicate, scanning from index 0, and \<open>-1\<close> when there is none.
\<close>

fun findIndex_from :: "('a \<Rightarrow> bool) \<Rightarrow> 'a list \<Rightarrow> int \<Rightarrow> int" where
  "findIndex_from p [] k = -1"
| "findIndex_from p (x # xs) k = (if p x then k else findIndex_from p xs (k + 1))"

definition findIndex :: "('a \<Rightarrow> bool) \<Rightarrow> 'a list \<Rightarrow> int" where
  "findIndex p xs = findIndex_from p xs 0"

text \<open>
  \<open>xs.splice(start, deleteCount)\<close> for \<open>0 \<le> start \<le> xs.length\<close>: the array without
  the \<open>deleteCount\<close> elements from \<open>start\<close> on. (\<open>splice\<close> is a constant of HOL's list
  library, hence the suffix.)
\<close>

definition splice_js :: "nat \<Rightarrow> nat \<Rightarrow> 'a list \<Rightarrow> 'a list" where
  "splice_js start deleteCount xs = take start xs @ drop (start + deleteCount) xs"

text \<open>The decimal digits of a number, as the template literal prints \<open>Date.now()\<close>.\<close>

definition digit_char :: "nat \<Rightarrow> char" where
  "digit_char d = ''0123456789'' ! d"

fun toString :: "nat \<Rightarrow> string" where
  "toString n = (if n < 10 then [digit_char n] else toString (n div 10) @ [digit_char (n mod 10)])"

section \<open>Numbers\<close>

text \<open>
  A JavaScript number is modelled by the rational it denotes, and every arithmetic
  operation rounds its exact result with a rounding function \<open>rnd\<close>, as IEEE 754
  prescribes. Two roundings are used: \<open>exact\<close> (no rounding: decimal arithmetic, as the
  specification reads the amounts) and \<open>binary64\<close> (round to the nearest double, ties to
  even, with gradual underflow; results beyond the largest double, which JavaScript
  turns into \<open>Infinity\<close>, are outside the model).
\<close>

definition exact :: "rat \<Rightarrow> rat" where
  "exact x = x"

fun bitlen :: "nat \<Rightarrow> nat" where
  "bitlen n = (if n = 0 then 0 else Suc (bitlen (n div 2)))"

text \<open>For \<open>x > 0\<close>: the integer \<open>e\<close> with \<open>2 ^ e \<le> x < 2 ^ (e + 1)\<close>.\<close>

definition ilog2 :: "rat \<Rightarrow> int" where
  "ilog2 x = (if 1 \<le> x then int (bitlen (nat \<lfloor>x\<rfloor>)) - 1
              else - int (bitlen (nat (\<lceil>1 / x\<rceil> - 1))))"

definition pow2 :: "int \<Rightarrow> rat" where
  "pow2 k = (if 0 \<le> k then 2 ^ nat k else 1 / 2 ^ nat (- k))"

text \<open>The nearest integer, a tie going to the even one.\<close>

definition rne :: "rat \<Rightarrow> int" where
  "rne x = (let n = \<lfloor>x\<rfloor>; r = x - of_int n
            in if r < 1 / 2 then n else if 1 / 2 < r then n + 1
               else if even n then n else n + 1)"

definition binary64 :: "rat \<Rightarrow> rat" where
  "binary64 x =
     (if x = 0 then 0
      else let e = max (ilog2 \<bar>x\<bar>) (- 1022);
               ulp = pow2 (e - 52)
           in sgn x * of_int (rne (\<bar>x\<bar> / ulp)) * ulp)"

definition js_add :: "(rat \<Rightarrow> rat) \<Rightarrow> rat \<Rightarrow> rat \<Rightarrow> rat" where
  "js_add rnd a b = rnd (a + b)"

definition js_sub :: "(rat \<Rightarrow> rat) \<Rightarrow> rat \<Rightarrow> rat \<Rightarrow> rat" where
  "js_sub rnd a b = rnd (a - b)"

definition js_mul :: "(rat \<Rightarrow> rat) \<Rightarrow> rat \<Rightarrow> rat \<Rightarrow> rat" where
  "js_mul rnd a b = rnd (a * b)"

text \<open>A decimal literal of the source, such as \<open>0.10\<close>: the number nearest to it.\<close>

definition js_lit :: "(rat \<Rightarrow> rat) \<Rightarrow> rat \<Rightarrow> rat" where
  "js_lit rnd q = rnd q"

text \<open>
  \<open>x += y\<close> on two ticket counts: the double nearest to the sum. The double nearest to
  an integer is an integer again (\<open>binary64_of_int_is_int\<close> below), which the floor reads
  back unchanged; up to \<open>2 ^ 53\<close> it is the sum itself (\<open>js_add_int_exact\<close> below).
\<close>

definition js_add_int :: "int \<Rightarrow> int \<Rightarrow> int" where
  "js_add_int a b = \<lfloor>js_add binary64 (of_int a) (of_int b)\<rfloor>"

section \<open>Cart management functions\<close>

text \<open>\<^verbatim>\<open>{ ...newItem, id: v }\<close>\<close>

definition with_id :: "cart_item_input \<Rightarrow> string \<Rightarrow> cart_item" where
  "with_id newItem v =
     \<lparr>parkId = parkId newItem, days = days newItem, tickets = tickets newItem,
      unitPrice = unitPrice newItem, parkName = parkName newItem,
      parkImage = parkImage newItem, item_id = v\<rparr>"

text \<open>
  \<open>addItemToCart(newItem)\<close>. The first argument is the value \<open>Date.now()\<close> returns during
  the call (milliseconds since the epoch). The result is the storage after the call, or
  the exception \<open>getCart\<close> raised.
\<close>

definition addItemToCart :: "nat \<Rightarrow> cart_item_input \<Rightarrow> storage \<Rightarrow> error + storage" where
  "addItemToCart now newItem st =
     (case getCart st of
        Inl e \<Rightarrow> Inl e
      | Inr cart \<Rightarrow>
          let existingItemIndex =
                findIndex (\<lambda>item. parkId item = parkId newItem \<and> days item = days newItem)
                  (items cart);
              cart' =
                (if existingItemIndex > -1 then
                   let i = nat existingItemIndex;
                       item = items cart ! i;
                       item1 = item\<lparr>tickets := (tickets item)
                                 \<lparr>adults := js_add_int (adults (tickets item))
                                              (adults (tickets newItem))\<rparr>\<rparr>;
                       item2 = item1\<lparr>tickets := (tickets item1)
                                 \<lparr>kids := js_add_int (kids (tickets item1))
                                            (kids (tickets newItem))\<rparr>\<rparr>
                   in cart\<lparr>items := (items cart)[i := item2]\<rparr>
                 else cart\<lparr>items := items cart @ [with_id newItem (''cart-'' @ toString now)]\<rparr>)
          in Inr (saveCart cart'))"

text \<open>\<open>removeItemFromCart(itemId)\<close>\<close>

definition removeItemFromCart :: "string \<Rightarrow> storage \<Rightarrow> error + storage" where
  "removeItemFromCart itemId st =
     (case getCart st of
        Inl e \<Rightarrow> Inl e
      | Inr cart \<Rightarrow>
          Inr (saveCart (cart\<lparr>items := filter (\<lambda>item. item_id item \<noteq> itemId) (items cart)\<rparr>)))"

text \<open>\<^verbatim>\<open>item.tickets[ticketType] = newQuantity\<close>\<close>

fun set_ticket :: "ticket_type \<Rightarrow> int \<Rightarrow> cart_item \<Rightarrow> cart_item" where
  "set_ticket Adults q item = item\<lparr>tickets := (tickets item)\<lparr>adults := q\<rparr>\<rparr>"
| "set_ticket Kids q item = item\<lparr>tickets := (tickets item)\<lparr>kids := q\<rparr>\<rparr>"

text \<open>\<open>updateCartItemQuantity(itemId, ticketType, newQuantity)\<close>\<close>

definition updateCartItemQuantity ::
    "string \<Rightarrow> ticket_type \<Rightarrow> int \<Rightarrow> storage \<Rightarrow> error + storage" where
  "updateCartItemQuantity itemId ticketType newQuantity st =
     (case getCart st of
        Inl e \<Rightarrow> Inl e
      | Inr cart \<Rightarrow>
          let itemIndex = findIndex (\<lambda>item. item_id item = itemId) (items cart);
              cart' =
                (if itemIndex > -1 then
                   if newQuantity \<ge> 0 then
                     let i = nat itemIndex;
                         cart1 = cart\<lparr>items :=
                                   (items cart)[i := set_ticket ticketType newQuantity (items cart ! i)]\<rparr>
                     in if adults (tickets (items cart1 ! i)) = 0
                           \<and> kids (tickets (items cart1 ! i)) = 0
                        then cart1\<lparr>items := splice_js i 1 (items cart1)\<rparr>
                        else cart1
                   else cart
                 else cart)
          in Inr (saveCart cart'))"

text \<open>
  A sequence of \<open>addItemToCart\<close> calls, each with the time of the call; an exception ends
  the sequence.
\<close>

fun addItems :: "(nat \<times> cart_item_input) list \<Rightarrow> storage \<Rightarrow> error + storage" where
  "addItems [] st = Inr st"
| "addItems ((now, newItem) # calls) st =
     (case addItemToCart now newItem st of Inl e \<Rightarrow> Inl e | Inr st' \<Rightarrow> addItems calls st')"

section \<open>The order summary\<close>

text \<open>
  The four amounts an order summary shows. The functions below are the arithmetic of
  \<open>createCartItemHTML\<close> (line 266), \<open>createCartSummaryHTML\<close> (lines 302 to 305) and
  \<open>createCheckoutSummaryHTML\<close> (lines 327 to 330); the HTML text around the amounts,
  and \<open>toFixed(2)\<close> that rounds them for display only, are not modelled.
\<close>

record summary =
  subtotal :: rat
  discount :: rat
  tax :: rat
  total :: rat

definition createCartItemHTML :: "(rat \<Rightarrow> rat) \<Rightarrow> cart_item \<Rightarrow> rat" where
  "createCartItemHTML rnd item =
     js_mul rnd
       (js_add rnd (js_mul rnd (of_int (adults (tickets item))) (adult (unitPrice item)))
                   (js_mul rnd (of_int (kids (tickets item))) (child (unitPrice item))))
       (of_int (days item))"

definition createCartSummaryHTML :: "(rat \<Rightarrow> rat) \<Rightarrow> cart \<Rightarrow> summary" where
  "createCartSummaryHTML rnd cart =
     (let subtotal =
            foldl (\<lambda>total item.
                     js_add rnd total
                       (js_mul rnd
                          (js_add rnd
                             (js_mul rnd (of_int (adults (tickets item))) (adult (unitPrice item)))
                             (js_mul rnd (of_int (kids (tickets item))) (child (unitPrice item))))
                          (of_int (days item))))
                  0 (items cart);
          discount = (if subtotal > 500 then js_mul rnd subtotal (js_lit rnd (10 / 100)) else 0);
          tax = js_mul rnd (js_sub rnd subtotal discount) (js_lit rnd (8 / 100));
          total = js_add rnd (js_sub rnd subtotal discount) tax
      in \<lparr>subtotal = subtotal, discount = discount, tax = tax, total = total\<rparr>)"









section \<open>The invariants of the data model\<close>



text \<open>
  The merge key of \<open>addItemToCart\<close>: an item or an input belongs to the pair
  \<open>(p, d)\<close> when its \<open>parkId\<close> is \<open>p\<close> and its \<open>days\<close> is \<open>d\<close>. \<open>items_for p d c\<close> are
  the items of the cart \<open>c\<close> for that pair, in the order of the cart.
\<close>

definition same_pair :: "string \<Rightarrow> int \<Rightarrow> 'a cart_item_input_scheme \<Rightarrow> bool" where
  "same_pair p d item = (parkId item = p \<and> days item = d)"

definition items_for :: "string \<Rightarrow> int \<Rightarrow> cart \<Rightarrow> cart_item list" where
  "items_for p d c = filter (same_pair p d) (items c)"

section \<open>Example data\<close>

text \<open>Concrete inputs and carts, for the examples that accompany the theorems.\<close>

definition example_input :: cart_item_input where
  "example_input =
     \<lparr>parkId = ''park-1'', days = 2, tickets = \<lparr>adults = 2, kids = 1\<rparr>,
      unitPrice = \<lparr>adult = 50, child = 30\<rparr>, parkName = ''Rocky Ridge'',
      parkImage = ''rocky.jpg''\<rparr>"

definition other_input :: cart_item_input where
  "other_input =
     \<lparr>parkId = ''park-2'', days = 1, tickets = \<lparr>adults = 3, kids = 0\<rparr>,
      unitPrice = \<lparr>adult = 40, child = 20\<rparr>, parkName = ''Dune Valley'',
      parkImage = ''dune.jpg''\<rparr>"

definition example_cart :: cart where
  "example_cart = \<lparr>items = [with_id example_input ''cart-1000'', with_id other_input ''cart-2000'']\<rparr>"

definition repriced_input :: cart_item_input where
  "repriced_input =
     \<lparr>parkId = ''park-1'', days = 2, tickets = \<lparr>adults = 1, kids = 2\<rparr>,
      unitPrice = \<lparr>adult = 99, child = 66\<rparr>, parkName = ''Rocky Ridge'',
      parkImage = ''rocky.jpg''\<rparr>"




declare toString.simps [simp del]

declare bitlen.simps [simp del]

section \<open>Loading the cart\<close>

lemma getCart_saveCart: "getCart (saveCart c) = Inr c"
  by (simp add: getCart_def saveCart_def JSON_stringify_def)

text \<open>
  C3, counterexample: with the string \<open>{\<close> stored under the key, which is not JSON text,
  \<open>getCart\<close> does not return a cart: the \<open>SyntaxError\<close> of \<open>JSON.parse\<close> is raised to the
  caller.
\<close>

theorem getCart_unparsable_raises:
  "getCart (Some (Malformed ''{'')) = Inl SyntaxError"
  by (simp add: getCart_def)

text \<open>
  C3, as amended: \<open>getCart\<close> returns a fresh empty cart when there is no entry and when
  the stored string is empty; it returns the stored cart when the string is the JSON
  text of one; and on every other, non-empty string that is not JSON text it raises the
  \<open>SyntaxError\<close> of \<open>JSON.parse\<close>.
\<close>

theorem getCart_cases:
  "getCart None = Inr \<lparr>items = []\<rparr>
   \<and> getCart (Some (Malformed [])) = Inr \<lparr>items = []\<rparr>
   \<and> getCart (Some (Stringified c)) = Inr c
   \<and> getCart (Some (Malformed (ch # s))) = Inl SyntaxError
   \<and> getCart clearCart = Inr \<lparr>items = []\<rparr>"
  by (simp add: getCart_def clearCart_def)

section \<open>Rounding to a double\<close>

text \<open>
  Facts about rounding to a double that the theorems on the cart and on the summary
  rest on: an integer below \<open>2 ^ 53\<close> in size is a double (rounding leaves it as it
  is), the double nearest to an integer is an integer, and rounding keeps the sign of a
  number and keeps a number that is at least 1 at least 1.
\<close>

lemma bitlen_bounds: "0 < n \<Longrightarrow> 2 ^ (bitlen n - 1) \<le> n \<and> n < 2 ^ bitlen n"
proof (induction n rule: bitlen.induct)
  case (1 n)
  show ?case
  proof (cases "n div 2 = 0")
    case True
    with "1.prems" have "n = 1" by presburger
    then show ?thesis by (simp add: bitlen.simps)
  next
    case False
    then have pos: "0 < n div 2" by simp
    have n0: "n \<noteq> 0" using "1.prems" by simp
    have ih: "2 ^ (bitlen (n div 2) - 1) \<le> n div 2 \<and> n div 2 < 2 ^ bitlen (n div 2)"
      using "1.IH" [OF n0 pos] .
    have bl: "bitlen n = Suc (bitlen (n div 2))"
      using n0 by (subst bitlen.simps) simp
    have bpos: "0 < bitlen (n div 2)"
      using pos by (subst bitlen.simps) simp
    then have p: "(2::nat) ^ bitlen (n div 2) = 2 * 2 ^ (bitlen (n div 2) - 1)"
      by (cases "bitlen (n div 2)") simp_all
    have lo: "2 ^ (bitlen n - 1) \<le> n"
      using ih p bl by simp presburger
    have hi: "n < 2 ^ bitlen n"
      using ih bl by simp presburger
    show ?thesis using lo hi by simp
  qed
qed

lemma bitlen_le: "n < 2 ^ k \<Longrightarrow> bitlen n \<le> k"
proof (cases "n = 0")
  case True
  then show ?thesis by (simp add: bitlen.simps)
next
  case False
  assume "n < 2 ^ k"
  moreover have "2 ^ (bitlen n - 1) \<le> n" using False bitlen_bounds [of n] by simp
  ultimately have "(2::nat) ^ (bitlen n - 1) < 2 ^ k" by linarith
  then have "bitlen n - 1 < k" by simp
  then show ?thesis by simp
qed

lemma bitlen_pos: "0 < n \<Longrightarrow> 0 < bitlen n"
  by (subst bitlen.simps) simp



lemma rne_of_int: "rne (of_int z) = z"
  by (simp add: rne_def)


lemma ilog2_bounds:
  assumes "1 \<le> x"
  shows "0 \<le> ilog2 x" and "pow2 (ilog2 x) \<le> x" and "x < pow2 (ilog2 x + 1)"
proof -
  let ?n = "nat \<lfloor>x\<rfloor>"
  have n: "0 < ?n" using assms by simp
  have il: "ilog2 x = int (bitlen ?n) - 1"
    using assms by (simp add: ilog2_def)
  have bpos: "0 < bitlen ?n" using n by (rule bitlen_pos)
  show "0 \<le> ilog2 x" using il bpos by simp
  have nat_e: "nat (int (bitlen ?n) - 1) = bitlen ?n - 1" by simp
  have "(2::nat) ^ (bitlen ?n - 1) \<le> ?n" using bitlen_bounds [OF n] by simp
  then have "(of_nat (2 ^ (bitlen ?n - 1)) :: rat) \<le> of_nat ?n"
    by (simp only: of_nat_le_iff)
  also have "(of_nat ?n :: rat) = of_int \<lfloor>x\<rfloor>" using n by simp
  also have "\<dots> \<le> x" by simp
  finally show "pow2 (ilog2 x) \<le> x"
    using il bpos by (simp add: pow2_def nat_e)
  have "?n < 2 ^ bitlen ?n" using bitlen_bounds [OF n] by simp
  then have "?n + 1 \<le> 2 ^ bitlen ?n" by linarith
  then have "(of_nat (?n + 1) :: rat) \<le> of_nat (2 ^ bitlen ?n)"
    by (simp only: of_nat_le_iff)
  moreover have "x < of_int \<lfloor>x\<rfloor> + 1" by linarith
  moreover have "(of_nat (?n + 1) :: rat) = of_int \<lfloor>x\<rfloor> + 1" using n by simp
  ultimately have "x < 2 ^ bitlen ?n" by simp
  then show "x < pow2 (ilog2 x + 1)"
    using il by (simp add: pow2_def)
qed

lemma binary64_pos_unfold:
  assumes "1 \<le> x"
  shows "binary64 x = of_int (rne (x / pow2 (ilog2 x - 52))) * pow2 (ilog2 x - 52)"
proof -
  have "max (ilog2 x) (- 1022) = ilog2 x" using ilog2_bounds(1) [OF assms] by simp
  moreover have "\<bar>x\<bar> = x" "sgn x = 1" "x \<noteq> 0" using assms by simp_all
  ultimately show ?thesis by (simp add: binary64_def Let_def)
qed



lemma binary64_neg: "binary64 (- x) = - binary64 x"
  by (simp add: binary64_def Let_def)


lemma binary64_of_int_low:
  assumes "0 < m" and "ilog2 (of_int m) \<le> 52"
  shows "binary64 (of_int m) = of_int m"
proof -
  let ?x = "of_int m :: rat"
  have x1: "1 \<le> ?x" using assms(1) by simp
  have le: "ilog2 ?x - 52 \<le> 0" using assms(2) by simp
  let ?j = "nat (52 - ilog2 ?x)"
  have u: "pow2 (ilog2 ?x - 52) = 1 / 2 ^ ?j"
  proof (cases "ilog2 ?x - 52 = 0")
    case True
    then show ?thesis by (simp add: pow2_def)
  next
    case False
    with le have "ilog2 ?x - 52 < 0" by simp
    then show ?thesis by (simp add: pow2_def)
  qed
  have "?x / pow2 (ilog2 ?x - 52) = of_int (m * 2 ^ ?j)"
    by (simp add: u)
  then have "rne (?x / pow2 (ilog2 ?x - 52)) = m * 2 ^ ?j"
    by (simp only: rne_of_int)
  then show ?thesis
    using binary64_pos_unfold [OF x1] by (simp add: u)
qed

lemma binary64_of_nat_small:
  assumes "0 < m" and "m < 2 ^ 53"
  shows "binary64 (of_int m) = of_int m"
proof -
  have "nat m < 2 ^ 53" using assms by (simp add: nat_less_iff)
  then have "bitlen (nat m) \<le> 53" by (rule bitlen_le)
  moreover have "ilog2 (of_int m) = int (bitlen (nat m)) - 1"
    using assms(1) by (simp add: ilog2_def)
  ultimately have "ilog2 (of_int m) \<le> 52" by simp
  with assms(1) show ?thesis by (rule binary64_of_int_low)
qed

lemma binary64_of_pos_int_is_int:
  assumes "0 < m"
  shows "\<exists>k. binary64 (of_int m) = of_int k"
proof (cases "ilog2 (of_int m) \<le> 52")
  case True
  with assms show ?thesis by (blast intro: binary64_of_int_low)
next
  case False
  let ?x = "of_int m :: rat"
  let ?j = "nat (ilog2 ?x - 52)"
  have x1: "1 \<le> ?x" using assms by simp
  have "pow2 (ilog2 ?x - 52) = of_int (2 ^ ?j)"
    using False by (simp add: pow2_def)
  then have "binary64 ?x = of_int (rne (?x / pow2 (ilog2 ?x - 52)) * 2 ^ ?j)"
    using binary64_pos_unfold [OF x1] by simp
  then show ?thesis by blast
qed

lemma binary64_of_int_is_int: "\<exists>k. binary64 (of_int m) = of_int k"
proof -
  consider "m = 0" | "0 < m" | "m < 0" by linarith
  then show ?thesis
  proof cases
    case 1
    then have "binary64 (of_int m) = of_int 0" by (simp add: binary64_def)
    then show ?thesis by blast
  next
    case 2
    then show ?thesis by (rule binary64_of_pos_int_is_int)
  next
    case 3
    then obtain k where "binary64 (of_int (- m)) = of_int k"
      using binary64_of_pos_int_is_int [of "- m"] by auto
    then have "binary64 (of_int m) = of_int (- k)"
      using binary64_neg [of "of_int m"] by simp
    then show ?thesis by blast
  qed
qed

lemma binary64_of_int_exact:
  assumes "\<bar>m\<bar> < 2 ^ 53"
  shows "binary64 (of_int m) = of_int m"
proof -
  consider "m = 0" | "0 < m" | "m < 0" by linarith
  then show ?thesis
  proof cases
    case 1
    then show ?thesis by (simp add: binary64_def)
  next
    case 2
    then show ?thesis using assms by (intro binary64_of_nat_small) simp_all
  next
    case 3
    then have "binary64 (of_int (- m)) = of_int (- m)"
      using assms by (intro binary64_of_nat_small) simp_all
    then show ?thesis using binary64_neg [of "of_int m"] by simp
  qed
qed

lemma js_add_int_exact: "\<bar>a + b\<bar> < 2 ^ 53 \<Longrightarrow> js_add_int a b = a + b"
  using binary64_of_int_exact [of "a + b"] by (simp add: js_add_int_def js_add_def)

text \<open>From \<open>2 ^ 53\<close> on the addition of counts rounds: \<open>2 ^ 53 + 1\<close> is \<open>2 ^ 53\<close>.\<close>

lemma bitlen_eq:
  assumes "2 ^ k \<le> n" and "n < 2 ^ Suc k"
  shows "bitlen n = Suc k"
proof -
  have pos: "0 < n" using assms(1) by (metis less_le_trans zero_less_numeral zero_less_power)
  have lo: "2 ^ (bitlen n - 1) \<le> n" and hi: "n < 2 ^ bitlen n"
    using bitlen_bounds [OF pos] by simp_all
  have "(2::nat) ^ (bitlen n - 1) < 2 ^ Suc k" using lo assms(2) by linarith
  then have "bitlen n - 1 < Suc k" by (rule power_less_imp_less_exp [rotated]) simp
  moreover have "(2::nat) ^ k < 2 ^ bitlen n" using assms(1) hi by linarith
  then have "k < bitlen n" by simp
  ultimately show ?thesis by linarith
qed

lemma rne_half: "rne (of_int n + 1 / 2) = (if even n then n else n + 1)"
proof -
  have "\<lfloor>of_int n + (1 / 2 :: rat)\<rfloor> = n"
    by (rule floor_unique) simp_all
  then show ?thesis by (simp add: rne_def Let_def)
qed

lemma js_add_int_rounds: "js_add_int (2 ^ 53) 1 = 2 ^ 53"
proof -
  have x1: "1 \<le> (9007199254740993 :: rat)" by simp
  have "2 ^ 53 \<le> (9007199254740993 :: nat)" and "(9007199254740993 :: nat) < 2 ^ Suc 53"
    by simp_all
  then have "bitlen 9007199254740993 = Suc 53" by (rule bitlen_eq)
  then have il: "ilog2 9007199254740993 = 53" by (simp add: ilog2_def)
  have r: "rne (9007199254740993 / 2) = 4503599627370496"
    using rne_half [of 4503599627370496] by simp
  have "binary64 9007199254740993 = 9007199254740992"
    using binary64_pos_unfold [OF x1] by (simp add: il pow2_def r)
  then show ?thesis by (simp add: js_add_int_def js_add_def)
qed



section \<open>What the array helpers and the operations compute\<close>

lemma findIndex_from_none:
  "(\<forall>y \<in> set xs. \<not> p y) \<Longrightarrow> findIndex_from p xs k = -1"
  by (induction xs arbitrary: k) auto

lemma findIndex_from_first:
  "p x \<Longrightarrow> (\<forall>y \<in> set pre. \<not> p y) \<Longrightarrow>
   findIndex_from p (pre @ x # post) k = k + int (length pre)"
  by (induction pre arbitrary: k) auto

lemma findIndex_none: "(\<forall>y \<in> set xs. \<not> p y) \<Longrightarrow> findIndex p xs = -1"
  by (simp add: findIndex_def findIndex_from_none)

lemma findIndex_first:
  "p x \<Longrightarrow> (\<forall>y \<in> set pre. \<not> p y) \<Longrightarrow> findIndex p (pre @ x # post) = int (length pre)"
  by (simp add: findIndex_def findIndex_from_first)

lemma first_match_split:
  "\<exists>y \<in> set xs. p y \<Longrightarrow>
   \<exists>pre x post. xs = pre @ x # post \<and> p x \<and> (\<forall>y \<in> set pre. \<not> p y)"
  by (metis split_list_first_prop)

lemma tickets_update_both:
  "(t::tickets)\<lparr>adults := a, kids := k\<rparr> = \<lparr>adults = a, kids = k\<rparr>"
  by (cases t) simp

lemma addItemToCart_append:
  assumes "getCart st = Inr c"
      and "\<forall>y \<in> set (items c). \<not> (parkId y = parkId n \<and> days y = days n)"
  shows "addItemToCart now n st =
           Inr (saveCart (c\<lparr>items := items c @ [with_id n (''cart-'' @ toString now)]\<rparr>))"
  using assms by (simp add: addItemToCart_def findIndex_none)

lemma addItemToCart_merge:
  assumes "getCart st = Inr c"
      and "items c = pre @ x # post"
      and "parkId x = parkId n \<and> days x = days n"
      and "\<forall>y \<in> set pre. \<not> (parkId y = parkId n \<and> days y = days n)"
  shows "addItemToCart now n st =
           Inr (saveCart (c\<lparr>items := pre @
                  x\<lparr>tickets := \<lparr>adults = js_add_int (adults (tickets x)) (adults (tickets n)),
                                 kids = js_add_int (kids (tickets x)) (kids (tickets n))\<rparr>\<rparr> # post\<rparr>))"
proof -
  have "findIndex (\<lambda>item. parkId item = parkId n \<and> days item = days n) (items c) = int (length pre)"
    using assms(2,3,4) findIndex_first [of "\<lambda>item. parkId item = parkId n \<and> days item = days n" x pre post]
    by simp
  then show ?thesis
    using assms(1,2) by (simp add: addItemToCart_def Let_def tickets_update_both)
qed




lemma toString_1000: "toString 1000 = ''1000''"
  by code_simp

section \<open>Adding items\<close>

text \<open>
  C5: the id \<open>addItemToCart\<close> gives a new item is \<open>cart-\<close> followed by the time of the
  call in milliseconds, so it is not distinct from the ids in the cart when an earlier
  item was added in the same millisecond. Two calls at the time 1000, for two different
  parks, starting from an empty storage: each appends one item at the end, with the
  fields of its input, and both items have the id \<open>cart-1000\<close>.
\<close>

theorem addItemToCart_same_millisecond:
  "addItems [(1000, example_input), (1000, other_input)] None
     = Inr (Some (Stringified
         \<lparr>items = [with_id example_input ''cart-1000'', with_id other_input ''cart-1000'']\<rparr>))
   \<and> parkId example_input \<noteq> parkId other_input"
  by (simp add: addItemToCart_def getCart_def saveCart_def JSON_stringify_def findIndex_def
      toString_1000 with_id_def example_input_def other_input_def)

lemma add_new_pair:
  assumes "getCart st = Inr c" and "items_for p d c = []" and "same_pair p d n"
  shows "\<exists>c'. addItemToCart now n st = Inr (saveCart c')
           \<and> items_for p d c' = [with_id n (''cart-'' @ toString now)]"
proof -
  let ?c' = "c\<lparr>items := items c @ [with_id n (''cart-'' @ toString now)]\<rparr>"
  have none: "\<forall>y \<in> set (items c). \<not> (parkId y = parkId n \<and> days y = days n)"
    using assms(2,3) by (auto simp: items_for_def same_pair_def filter_empty_conv)
  have "addItemToCart now n st = Inr (saveCart ?c')"
    using assms(1) none by (rule addItemToCart_append)
  moreover have "items_for p d ?c' = [with_id n (''cart-'' @ toString now)]"
    using assms(2,3) by (simp add: items_for_def same_pair_def with_id_def)
  ultimately show ?thesis by blast
qed

lemma add_existing_pair:
  assumes "getCart st = Inr c" and "items_for p d c = [x]" and "same_pair p d n"
  shows "\<exists>c'. addItemToCart now n st = Inr (saveCart c')
           \<and> items_for p d c' =
               [x\<lparr>tickets := \<lparr>adults = js_add_int (adults (tickets x)) (adults (tickets n)),
                              kids = js_add_int (kids (tickets x)) (kids (tickets n))\<rparr>\<rparr>]"
proof -
  have "x \<in> set (filter (same_pair p d) (items c))"
    using assms(2) by (simp add: items_for_def)
  then have "\<exists>y \<in> set (items c). same_pair p d y" by auto
  then obtain pre x0 post where split: "items c = pre @ x0 # post" "same_pair p d x0"
      "\<forall>y \<in> set pre. \<not> same_pair p d y"
    using first_match_split [of "items c" "same_pair p d"] by auto
  have pre_none: "filter (same_pair p d) pre = []"
    using split(3) by (simp add: filter_empty_conv)
  have "x0 # filter (same_pair p d) post = [x]"
    using assms(2) split(1,2) pre_none by (simp add: items_for_def)
  then have x0: "x0 = x" and post_none: "filter (same_pair p d) post = []" by simp_all
  let ?x' = "x\<lparr>tickets := \<lparr>adults = js_add_int (adults (tickets x)) (adults (tickets n)),
                             kids = js_add_int (kids (tickets x)) (kids (tickets n))\<rparr>\<rparr>"
  let ?c' = "c\<lparr>items := pre @ ?x' # post\<rparr>"
  have key: "\<And>y. (parkId y = parkId n \<and> days y = days n) = same_pair p d y"
    using assms(3) by (auto simp: same_pair_def)
  have "addItemToCart now n st = Inr (saveCart ?c')"
    using assms(1) split x0 by (intro addItemToCart_merge) (simp_all add: key)
  moreover have "items_for p d ?c' = [?x']"
    using split(2) x0 pre_none post_none by (simp add: items_for_def same_pair_def)
  ultimately show ?thesis by blast
qed

lemma addItems_existing_pair:
  assumes "getCart st = Inr c" and "items_for p d c = [x]"
      and "\<forall>call \<in> set calls. same_pair p d (snd call)"
      and "\<bar>adults (tickets x)\<bar>
             + sum_list (map (\<lambda>call. \<bar>adults (tickets (snd call))\<bar>) calls) < 2 ^ 53"
      and "\<bar>kids (tickets x)\<bar>
             + sum_list (map (\<lambda>call. \<bar>kids (tickets (snd call))\<bar>) calls) < 2 ^ 53"
  shows "\<exists>st' c'. addItems calls st = Inr st' \<and> getCart st' = Inr c'
           \<and> items_for p d c' =
               [x\<lparr>tickets := \<lparr>adults = adults (tickets x)
                                         + sum_list (map (\<lambda>call. adults (tickets (snd call))) calls),
                              kids = kids (tickets x)
                                         + sum_list (map (\<lambda>call. kids (tickets (snd call))) calls)\<rparr>\<rparr>]"
  using assms
proof (induction calls arbitrary: st c x)
  case Nil
  have "x\<lparr>tickets := \<lparr>adults = adults (tickets x), kids = kids (tickets x)\<rparr>\<rparr> = x"
    by simp
  then show ?case using Nil by simp
next
  case (Cons call calls)
  obtain now n where call: "call = (now, n)" by (cases call)
  let ?A = "sum_list (map (\<lambda>call. \<bar>adults (tickets (snd call))\<bar>) calls)"
  let ?K = "sum_list (map (\<lambda>call. \<bar>kids (tickets (snd call))\<bar>) calls)"
  have A0: "0 \<le> ?A" and K0: "0 \<le> ?K" by (rule sum_list_nonneg, auto)+
  have a_bound: "\<bar>adults (tickets x)\<bar> + \<bar>adults (tickets n)\<bar> + ?A < 2 ^ 53"
    and k_bound: "\<bar>kids (tickets x)\<bar> + \<bar>kids (tickets n)\<bar> + ?K < 2 ^ 53"
    using Cons.prems(4,5) call by simp_all
  have a_exact: "js_add_int (adults (tickets x)) (adults (tickets n))
                   = adults (tickets x) + adults (tickets n)"
    using a_bound A0 by (intro js_add_int_exact) linarith
  have k_exact: "js_add_int (kids (tickets x)) (kids (tickets n))
                   = kids (tickets x) + kids (tickets n)"
    using k_bound K0 by (intro js_add_int_exact) linarith
  let ?x1 = "x\<lparr>tickets := \<lparr>adults = adults (tickets x) + adults (tickets n),
                             kids = kids (tickets x) + kids (tickets n)\<rparr>\<rparr>"
  from Cons.prems call have n: "same_pair p d n" by simp
  obtain c1 where step: "addItemToCart now n st = Inr (saveCart c1)"
      and c1: "items_for p d c1 = [?x1]"
    using add_existing_pair [OF Cons.prems(1,2) n] a_exact k_exact by auto
  have rest: "\<forall>call \<in> set calls. same_pair p d (snd call)"
    using Cons.prems(3) by simp
  have a1: "\<bar>adults (tickets ?x1)\<bar> + ?A < 2 ^ 53"
    using a_bound by simp
  have k1: "\<bar>kids (tickets ?x1)\<bar> + ?K < 2 ^ 53"
    using k_bound by simp
  obtain st' c' where "addItems calls (saveCart c1) = Inr st'" "getCart st' = Inr c'"
      "items_for p d c' =
         [?x1\<lparr>tickets := \<lparr>adults = adults (tickets ?x1)
                                   + sum_list (map (\<lambda>call. adults (tickets (snd call))) calls),
                          kids = kids (tickets ?x1)
                                   + sum_list (map (\<lambda>call. kids (tickets (snd call))) calls)\<rparr>\<rparr>]"
    using Cons.IH [OF getCart_saveCart c1 rest a1 k1] by blast
  then show ?case
    using step call by (simp add: add.assoc)
qed

text \<open>
  C1, counterexample: the cart holds an item for the pair (\<open>park-1\<close>, 2 days) with
  2 adults and 1 kid; one \<open>addItemToCart\<close> call for that pair with 2 adults and 1 kid
  leaves one item for the pair with 4 adults and 2 kids, not the sums 2 and 1 of the
  additions of the sequence: the counts the cart held before are part of the result.
\<close>

theorem addItems_existing_counts_added:
  "addItems [(3000, example_input)] (Some (Stringified example_cart))
     = Inr (Some (Stringified
           \<lparr>items = [(with_id example_input ''cart-1000'')\<lparr>tickets := \<lparr>adults = 4, kids = 2\<rparr>\<rparr>,
                     with_id other_input ''cart-2000'']\<rparr>))
   \<and> sum_list (map (\<lambda>call. adults (tickets (snd call))) [(3000, example_input)]) = 2
   \<and> sum_list (map (\<lambda>call. kids (tickets (snd call))) [(3000, example_input)]) = 1"
  by (simp add: getCart_def saveCart_def JSON_stringify_def example_cart_def with_id_def
      example_input_def other_input_def addItemToCart_def findIndex_def js_add_int_exact)

text \<open>
  C1, as amended: for every non-empty sequence of \<open>addItemToCart\<close> calls whose inputs
  share one \<open>(parkId, days)\<close> pair, starting from any cart with at most one item for
  that pair (as the data model requires), and as long as the counts stay safe integers
  (the sizes of the count the cart held for the pair and of all the added counts sum to
  less than \<open>2 ^ 53\<close>, for the adults and for the kids, so that no addition of
  doubles rounds), no call raises and the resulting cart contains exactly one item for
  the pair; its \<open>tickets.adults\<close> and \<open>tickets.kids\<close> are the counts the cart held for
  the pair before (zero when it held none) plus the sums of the corresponding values of
  all the additions; and its \<open>unitPrice\<close> is the one of the item the cart held before, or
  of the first input when it held none: no merge overwrites it with the prices of a
  later input.
\<close>

theorem addItems_same_pair:
  assumes "getCart st = Inr c"
      and "calls \<noteq> []"
      and "\<forall>call \<in> set calls. same_pair p d (snd call)"
      and "length (items_for p d c) \<le> 1"
      and "sum_list (map (\<lambda>x. \<bar>adults (tickets x)\<bar>) (items_for p d c))
             + sum_list (map (\<lambda>call. \<bar>adults (tickets (snd call))\<bar>) calls) < 2 ^ 53"
      and "sum_list (map (\<lambda>x. \<bar>kids (tickets x)\<bar>) (items_for p d c))
             + sum_list (map (\<lambda>call. \<bar>kids (tickets (snd call))\<bar>) calls) < 2 ^ 53"
  shows "\<exists>st' c' x'. addItems calls st = Inr st' \<and> getCart st' = Inr c'
           \<and> items_for p d c' = [x']
           \<and> adults (tickets x') =
                sum_list (map (\<lambda>x. adults (tickets x)) (items_for p d c))
                + sum_list (map (\<lambda>call. adults (tickets (snd call))) calls)
           \<and> kids (tickets x') =
                sum_list (map (\<lambda>x. kids (tickets x)) (items_for p d c))
                + sum_list (map (\<lambda>call. kids (tickets (snd call))) calls)
           \<and> unitPrice x' =
                (case items_for p d c of [] \<Rightarrow> unitPrice (snd (hd calls))
                 | x # xs \<Rightarrow> unitPrice x)"
proof (cases "items_for p d c")
  case Nil
  obtain now n rest where calls: "calls = (now, n) # rest"
    using assms(2) by (cases calls) auto
  let ?x0 = "with_id n (''cart-'' @ toString now)"
  have n: "same_pair p d n" and rest: "\<forall>call \<in> set rest. same_pair p d (snd call)"
    using assms(3) calls by simp_all
  obtain c1 where step: "addItemToCart now n st = Inr (saveCart c1)"
      and c1: "items_for p d c1 = [?x0]"
    using add_new_pair [OF assms(1) Nil n] by blast
  have a0: "\<bar>adults (tickets ?x0)\<bar>
              + sum_list (map (\<lambda>call. \<bar>adults (tickets (snd call))\<bar>) rest) < 2 ^ 53"
    and k0: "\<bar>kids (tickets ?x0)\<bar>
              + sum_list (map (\<lambda>call. \<bar>kids (tickets (snd call))\<bar>) rest) < 2 ^ 53"
    using assms(5,6) calls Nil by (simp_all add: with_id_def)
  obtain st' c' where "addItems rest (saveCart c1) = Inr st'" "getCart st' = Inr c'"
      "items_for p d c' =
         [?x0\<lparr>tickets := \<lparr>adults = adults (tickets ?x0)
                                   + sum_list (map (\<lambda>call. adults (tickets (snd call))) rest),
                          kids = kids (tickets ?x0)
                                   + sum_list (map (\<lambda>call. kids (tickets (snd call))) rest)\<rparr>\<rparr>]"
    using addItems_existing_pair [OF getCart_saveCart c1 rest a0 k0] by blast
  then show ?thesis
    using step calls Nil by (simp add: with_id_def)
next
  case (Cons x xs)
  then have one: "items_for p d c = [x]"
    using assms(4) by simp
  have a0: "\<bar>adults (tickets x)\<bar>
              + sum_list (map (\<lambda>call. \<bar>adults (tickets (snd call))\<bar>) calls) < 2 ^ 53"
    and k0: "\<bar>kids (tickets x)\<bar>
              + sum_list (map (\<lambda>call. \<bar>kids (tickets (snd call))\<bar>) calls) < 2 ^ 53"
    using assms(5,6) one by simp_all
  obtain st' c' where "addItems calls st = Inr st'" "getCart st' = Inr c'"
      "items_for p d c' =
         [x\<lparr>tickets := \<lparr>adults = adults (tickets x)
                                   + sum_list (map (\<lambda>call. adults (tickets (snd call))) calls),
                        kids = kids (tickets x)
                                   + sum_list (map (\<lambda>call. kids (tickets (snd call))) calls)\<rparr>\<rparr>]"
    using addItems_existing_pair [OF assms(1) one assms(3) a0 k0] by blast
  then show ?thesis
    using one by simp
qed

theorem addItems_same_pair_witness:
  "getCart (Some (Stringified example_cart)) = Inr example_cart
   \<and> items_for ''park-1'' 2 example_cart = [with_id example_input ''cart-1000'']
   \<and> addItems [(3000, example_input), (4000, repriced_input)] (Some (Stringified example_cart))
       = Inr (Some (Stringified
           \<lparr>items = [(with_id example_input ''cart-1000'')\<lparr>tickets := \<lparr>adults = 5, kids = 4\<rparr>\<rparr>,
                     with_id other_input ''cart-2000'']\<rparr>))"
  using addItems_same_pair
          [where st = "Some (Stringified example_cart)" and c = example_cart
             and calls = "[(3000, example_input), (4000, repriced_input)]"
             and p = "''park-1''" and d = 2]
  by (simp add: getCart_def saveCart_def JSON_stringify_def example_cart_def with_id_def
      example_input_def other_input_def repriced_input_def items_for_def same_pair_def
      addItemToCart_def findIndex_def js_add_int_exact)

section \<open>The invariant under the operations\<close>








section \<open>Removing an item\<close>

text \<open>
  C9: when no item of the cart has the given id, \<open>removeItemFromCart\<close> leaves the item
  list as it was (the same items, in the same order) and still saves the cart: the
  storage afterwards holds the cart that was loaded.
\<close>

theorem removeItemFromCart_absent:
  assumes "getCart st = Inr c"
      and "\<forall>item \<in> set (items c). item_id item \<noteq> itemId"
  shows "removeItemFromCart itemId st = Inr (saveCart c) \<and> getCart (saveCart c) = Inr c"
  using assms by (simp add: removeItemFromCart_def getCart_saveCart)

theorem removeItemFromCart_absent_witness:
  "getCart (Some (Stringified example_cart)) = Inr example_cart
   \<and> removeItemFromCart ''cart-3000'' (Some (Stringified example_cart))
       = Inr (Some (Stringified example_cart))"
  using removeItemFromCart_absent
          [of "Some (Stringified example_cart)" example_cart "''cart-3000''"]
  by (simp add: getCart_def saveCart_def JSON_stringify_def example_cart_def with_id_def)

text \<open>
  C10: for every cart, also one in which several items share an id,
  \<open>removeItemFromCart\<close> removes every item whose id is the given one, so that no item
  with that id is left, and keeps all the items with another id, unchanged and in their
  order: the list of the items of the old cart that have another id is the new list.
\<close>

theorem removeItemFromCart_all_with_id:
  assumes "getCart st = Inr c"
  shows "\<exists>c'. removeItemFromCart itemId st = Inr (saveCart c')
           \<and> getCart (saveCart c') = Inr c'
           \<and> (\<forall>item \<in> set (items c'). item_id item \<noteq> itemId)
           \<and> filter (\<lambda>item. item_id item \<noteq> itemId) (items c) = items c'"
proof (intro exI conjI)
  let ?c' = "c\<lparr>items := filter (\<lambda>item. item_id item \<noteq> itemId) (items c)\<rparr>"
  show "removeItemFromCart itemId st = Inr (saveCart ?c')"
    using assms by (simp add: removeItemFromCart_def)
  show "getCart (saveCart ?c') = Inr ?c'"
    by (rule getCart_saveCart)
  show "\<forall>item \<in> set (items ?c'). item_id item \<noteq> itemId"
    by simp
  show "filter (\<lambda>item. item_id item \<noteq> itemId) (items c) = items ?c'"
    by simp
qed

theorem removeItemFromCart_all_with_id_witness:
  "removeItemFromCart ''cart-1000''
     (Some (Stringified \<lparr>items = [with_id example_input ''cart-1000'',
                                  with_id other_input ''cart-2000'',
                                  with_id other_input ''cart-1000'']\<rparr>))
   = Inr (Some (Stringified \<lparr>items = [with_id other_input ''cart-2000'']\<rparr>))"
  using removeItemFromCart_all_with_id
          [of "Some (Stringified \<lparr>items = [with_id example_input ''cart-1000'',
                                  with_id other_input ''cart-2000'',
                                  with_id other_input ''cart-1000'']\<rparr>)" _ "''cart-1000''"]
  by (auto simp: getCart_def saveCart_def JSON_stringify_def with_id_def)

section \<open>Updating a quantity\<close>

text \<open>
  C8: for every cart the storage holds (or the empty cart, when it holds none), every
  item id, every ticket type and every negative new quantity, \<open>updateCartItemQuantity\<close>
  changes no item of the cart, and it still saves the cart: the storage afterwards holds
  the cart that was loaded, unchanged.
\<close>

theorem updateCartItemQuantity_negative:
  assumes "getCart st = Inr c" and "q < 0"
  shows "updateCartItemQuantity itemId ty q st = Inr (saveCart c)
         \<and> getCart (saveCart c) = Inr c"
  using assms by (simp add: updateCartItemQuantity_def Let_def getCart_saveCart)

theorem updateCartItemQuantity_negative_witness:
  "getCart (Some (Stringified example_cart)) = Inr example_cart
   \<and> updateCartItemQuantity ''cart-1000'' Kids (- 1) (Some (Stringified example_cart))
       = Inr (Some (Stringified example_cart))"
  using updateCartItemQuantity_negative
          [of "Some (Stringified example_cart)" example_cart "- 1" "''cart-1000''" Kids]
  by (simp add: getCart_def saveCart_def JSON_stringify_def)

section \<open>Setting a count, and the removal at zero\<close>



section \<open>The order summary in decimal and in double arithmetic\<close>




















section \<open>The example of the specification\<close>

lemma binary64_small_integers:
  "binary64 30 = 30" "binary64 100 = 100" "binary64 130 = 130" "binary64 260 = 260"
  by (simp_all add: binary64_def ilog2_def pow2_def rne_def Let_def bitlen.simps)

text \<open>
  The double nearest to 0.08 is \<open>5764607523034235 * 2 ^ -56\<close> (the bits
  \<open>0x3FB47AE147AE147B\<close>): 0.08 itself is not a double.
\<close>

lemma binary64_8_hundredths:
  "js_lit binary64 (8 / 100) = 5764607523034235 / 2 ^ 56"
  by code_simp

lemma example_tax_binary64:
  "binary64 (260 * js_lit binary64 (2 / 25)) = js_lit binary64 (104 / 5)"
  by code_simp

lemma example_total_binary64:
  "binary64 (260 + js_lit binary64 (104 / 5)) = js_lit binary64 (1404 / 5)"
  by code_simp

text \<open>
  C6: for the cart with the one item of 2 adults and 1 kid, unit prices 50 and 30, and
  2 days, the line total is 260 and the summary is subtotal 260, discount 0, tax 20.8
  and total 280.8. In exact decimal arithmetic these are the amounts themselves; in
  double precision, the arithmetic of the code, the results are the very numbers the
  literals \<open>20.8\<close> and \<open>280.8\<close> denote. No amount is rounded to 2 digits on the way:
  \<open>toFixed(2)\<close> is applied to the results for display only.
\<close>

theorem example_summary:
  "createCartItemHTML exact (with_id example_input ''cart-1000'') = 260
   \<and> createCartSummaryHTML exact \<lparr>items = [with_id example_input ''cart-1000'']\<rparr>
       = \<lparr>subtotal = 260, discount = 0, tax = 208 / 10, total = 2808 / 10\<rparr>
   \<and> createCartItemHTML binary64 (with_id example_input ''cart-1000'') = 260
   \<and> createCartSummaryHTML binary64 \<lparr>items = [with_id example_input ''cart-1000'']\<rparr>
       = \<lparr>subtotal = 260, discount = 0, tax = js_lit binary64 (208 / 10),
          total = js_lit binary64 (2808 / 10)\<rparr>"
proof -
  have line_exact: "createCartItemHTML exact (with_id example_input ''cart-1000'') = 260"
    by (simp add: createCartItemHTML_def with_id_def example_input_def js_add_def js_mul_def
        exact_def)
  have summary_exact:
    "createCartSummaryHTML exact \<lparr>items = [with_id example_input ''cart-1000'']\<rparr>
       = \<lparr>subtotal = 260, discount = 0, tax = 208 / 10, total = 2808 / 10\<rparr>"
    by (simp add: createCartSummaryHTML_def Let_def with_id_def example_input_def js_add_def
        js_sub_def js_mul_def js_lit_def exact_def)
  have line_double: "createCartItemHTML binary64 (with_id example_input ''cart-1000'') = 260"
    by (simp add: createCartItemHTML_def with_id_def example_input_def js_add_def js_mul_def
        binary64_small_integers)
  have summary_double:
    "createCartSummaryHTML binary64 \<lparr>items = [with_id example_input ''cart-1000'']\<rparr>
       = \<lparr>subtotal = 260, discount = 0, tax = js_lit binary64 (208 / 10),
          total = js_lit binary64 (2808 / 10)\<rparr>"
    by (simp add: createCartSummaryHTML_def Let_def with_id_def example_input_def js_add_def
        js_sub_def js_mul_def binary64_small_integers example_tax_binary64
        example_total_binary64)
  show ?thesis
    using line_exact summary_exact line_double summary_double by simp
qed

end
